theory Spec2Isabelle
  imports Main "HOL-Library.Multiset"
begin

section \<open>Go values shared by the transport and the DHT wrapper\<close>

text \<open>
  An \<open>error\<close> value is represented by the text its \<open>Error()\<close> method yields; a Go
  \<open>error\<close> that may be \<open>nil\<close> is an \<open>error option\<close>.
\<close>

type_synonym error = string

text \<open>\<open>fmt\<close>'s \<open>%v\<close> of a slice: the elements separated by one space, in brackets.\<close>

fun joinSp :: "string list \<Rightarrow> string" where
  "joinSp [] = []"
| "joinSp [x] = x"
| "joinSp (x # y # ys) = x @ '' '' @ joinSp (y # ys)"

definition fmtSlice :: "string list \<Rightarrow> string" where
  "fmtSlice xs = ''['' @ joinSp xs @ '']''"

text \<open>
  Go's \<open>int\<close> is 64 bits wide and wraps around; \<open>int64\<close> is the value a machine
  operation leaves for the mathematical result \<open>x\<close>.
\<close>

definition int64 :: "int \<Rightarrow> int" where
  "int64 x = (x + 2 ^ 63) mod 2 ^ 64 - 2 ^ 63"

text \<open>\<open>ctx.Err()\<close> once \<open>ctx.Done()\<close> is closed.\<close>

datatype ctxErr = Canceled | DeadlineExceeded

fun ctxErrString :: "ctxErr \<Rightarrow> string" where
  "ctxErrString Canceled = ''context canceled''"
| "ctxErrString DeadlineExceeded = ''context deadline exceeded''"

text \<open>\<open>tordht.PeerInfo\<close>.\<close>

record PeerInfo =
  ID :: string
  OnionServiceID :: string
  OnionPort :: int

section \<open>connectPeers\<close>

text \<open>
  The body of the goroutine started for one peer (lines 323--332): it sends exactly one
  message on \<open>peerConnCh\<close>, \<open>nil\<close> when \<open>connectPeer\<close> succeeded and the wrapped
  error otherwise. \<open>connectPeer\<close> is the outcome of \<open>t.connectPeer(ctx, peer)\<close>
  and \<open>showPeer\<close> the \<open>%v\<close> rendering of a \<open>*tordht.PeerInfo\<close>.
\<close>

definition attempt ::
  "(PeerInfo \<Rightarrow> error option) \<Rightarrow> (PeerInfo \<Rightarrow> string) \<Rightarrow> PeerInfo \<Rightarrow> error option" where
  "attempt connectPeer showPeer peer =
     (case connectPeer peer of
        Some err \<Rightarrow> Some (''Peer connection to '' @ showPeer peer @ '' failed: '' @ err)
      | None \<Rightarrow> None)"

text \<open>
  The launch loop (lines 319--333) starts one goroutine per element of \<open>peers\<close>, whatever
  \<open>minRequired\<close> is; \<open>peerConnCh\<close> lists the messages they send. The channel has
  capacity \<open>len(peers)\<close>, so no sender ever blocks.
\<close>

definition peerConnCh ::
  "(PeerInfo \<Rightarrow> error option) \<Rightarrow> (PeerInfo \<Rightarrow> string) \<Rightarrow> PeerInfo list \<Rightarrow> error option list" where
  "peerConnCh connectPeer showPeer peers = map (attempt connectPeer showPeer) peers"

text \<open>
  One turn of the \<open>select\<close> (lines 338--353) either receives a message from
  \<open>peerConnCh\<close> or sees \<open>ctx.Done()\<close> closed. The order in which the goroutines
  finish and the choice among ready cases are not fixed by the program; a schedule is the
  list of cases the successive turns take.
\<close>

datatype event = PeerConn "error option" | Done ctxErr

text \<open>The two errors \<open>connectPeers\<close> builds with \<open>fmt.Errorf\<close>, and their text.\<close>

datatype connectErr =
    ManyFailures "error list"
  | ContextErrored ctxErr "error list"

fun errorString :: "connectErr \<Rightarrow> string" where
  "errorString (ManyFailures peerErrs) =
     ''Many failures, unable to get enough peers: '' @ fmtSlice peerErrs"
| "errorString (ContextErrored c peerErrs) =
     ''Context errored with '' @ [CHR 0x27] @ ctxErrString c @ [CHR 0x27] @
     '', peer errors: '' @ fmtSlice peerErrs"

text \<open>
  The \<open>for\<close>/\<open>select\<close> loop with its two local variables. \<open>None\<close> means that the
  schedule is used up and the loop is still blocked in \<open>select\<close>; \<open>Some r\<close> is the
  returned \<open>error\<close>. \<open>peersConnected\<close> is incremented only while it stays below
  \<open>minRequired\<close>, so the increment cannot wrap.
\<close>

fun selectLoop ::
  "nat \<Rightarrow> int \<Rightarrow> error list \<Rightarrow> int \<Rightarrow> event list \<Rightarrow> connectErr option option" where
  "selectLoop n minRequired peerErrs peersConnected [] = None"
| "selectLoop n minRequired peerErrs peersConnected (PeerConn None # sched) =
     (if peersConnected + 1 \<ge> minRequired then Some None
      else selectLoop n minRequired peerErrs (peersConnected + 1) sched)"
| "selectLoop n minRequired peerErrs peersConnected (PeerConn (Some peerErr) # sched) =
     (if int (length (peerErrs @ [peerErr])) > int64 (int n - minRequired)
      then Some (Some (ManyFailures (peerErrs @ [peerErr])))
      else selectLoop n minRequired (peerErrs @ [peerErr]) peersConnected sched)"
| "selectLoop n minRequired peerErrs peersConnected (Done c # sched) =
     Some (Some (ContextErrored c peerErrs))"

text \<open>Lines 313--315.\<close>

definition clampMinRequired :: "PeerInfo list \<Rightarrow> int \<Rightarrow> int" where
  "clampMinRequired peers minRequired =
     (if int (length peers) < minRequired then int (length peers) else minRequired)"

definition connectPeers :: "event list \<Rightarrow> PeerInfo list \<Rightarrow> int \<Rightarrow> connectErr option option" where
  "connectPeers sched peers minRequired =
     selectLoop (length peers) (clampMinRequired peers minRequired) [] 0 sched"

text \<open>
  A schedule is feasible for a call when the messages it receives are among those the
  launched goroutines send, each at most once.
\<close>

definition received :: "event list \<Rightarrow> error option list" where
  "received sched = concat (map (\<lambda>ev. case ev of PeerConn m \<Rightarrow> [m] | Done c \<Rightarrow> []) sched)"

definition feasible ::
  "(PeerInfo \<Rightarrow> error option) \<Rightarrow> (PeerInfo \<Rightarrow> string) \<Rightarrow> PeerInfo list \<Rightarrow> event list \<Rightarrow> bool" where
  "feasible connectPeer showPeer peers sched \<longleftrightarrow>
     mset (received sched) \<subseteq># mset (peerConnCh connectPeer showPeer peers)"

text \<open>The successes and the failure reasons among the messages of a schedule.\<close>

definition successes :: "event list \<Rightarrow> nat" where
  "successes sched = length (filter (\<lambda>ev. ev = PeerConn None) sched)"

definition failures :: "event list \<Rightarrow> error list" where
  "failures sched = concat (map (\<lambda>ev. case ev of PeerConn (Some e) \<Rightarrow> [e] | _ \<Rightarrow> []) sched)"

section \<open>Decimal rendering\<close>

text \<open>\<open>%v\<close> of an \<open>int\<close>: its decimal digits, with a minus sign when negative.\<close>

definition digit :: "nat \<Rightarrow> char" where
  "digit d = char_of (48 + d)"

function showNat :: "nat \<Rightarrow> string" where
  "showNat n = (if n < 10 then [digit n] else showNat (n div 10) @ [digit (n mod 10)])"
  by pat_completeness auto
termination
  by (relation "measure id") auto

declare showNat.simps [simp del]

definition showInt :: "int \<Rightarrow> string" where
  "showInt i = (if i < 0 then ''-'' @ showNat (nat (- i)) else showNat (nat i))"

section \<open>The transport\<close>

text \<open>
  A panic (index out of range, nil dereference) is an outcome of its own, apart from the
  values a function returns.
\<close>

datatype 'a go = Panic | Return 'a

text \<open>
  Addresses, peer identities and the handles of the overlay client are opaque to the
  transport: a \<open>ma.Multiaddr\<close> is kept as its text, a connection, dialer or listener as
  a number naming it.
\<close>

type_synonym multiaddr = string
type_synonym peerID = string
type_synonym netConn = nat
type_synonym torDialerRef = nat
type_synonym dialConf = nat

record TorTransportConf =
  DialConf :: dialConf
  WebSocket :: bool

text \<open>The \<open>gorillaws.Dialer\<close> built at lines 111--115; the timeout in seconds.\<close>

record wsDialerRec =
  NetDial :: "torDialerRef option"
  HandshakeTimeout :: nat

record TorTransport =
  conf :: TorTransportConf
  torDialer :: "torDialerRef option"
  wsDialer :: "wsDialerRec option"

record OnionService =
  OnionID :: string
  RemotePorts :: "int list"

datatype netListener = OnionListener OnionService | WsListener nat

record manetListener =
  onion :: OnionService
  multiaddr :: multiaddr
  listener :: netListener

text \<open>
  What the transport calls but does not implement: the address format, the overlay
  client (\<open>bine\<close>), the websocket package, \<open>manet\<close> and the upgrader. A call that acts
  on the outside world takes the state \<open>'w\<close> of that world and returns the new one.
  \<open>bineDialer\<close> returns the pair Go returns, since line 106 stores its first component
  whatever the second is.
\<close>

record ('w, 'c, 'l) env =
  onionInfo :: "multiaddr \<Rightarrow> error + (string \<times> int)"
  onionAddr :: "string \<Rightarrow> int \<Rightarrow> string"
  bineDialer :: "dialConf \<Rightarrow> 'w \<Rightarrow> (torDialerRef option \<times> error option) \<times> 'w"
  wsDial :: "wsDialerRec \<Rightarrow> string \<Rightarrow> 'w \<Rightarrow> (error + netConn) \<times> 'w"
  wsNewConn :: "netConn \<Rightarrow> netConn"
  dialContext :: "torDialerRef \<Rightarrow> string \<Rightarrow> 'w \<Rightarrow> (error + netConn) \<times> 'w"
  wrapNetConn :: "netConn \<Rightarrow> error + netConn"
  upgradeOutbound :: "netConn \<Rightarrow> peerID \<Rightarrow> 'w \<Rightarrow> (error + 'c) \<times> 'w"
  valueForProtocol :: "multiaddr \<Rightarrow> error + string"
  bineListen :: "'w \<Rightarrow> (error + OnionService) \<times> 'w"
  onionClose :: "OnionService \<Rightarrow> 'w \<Rightarrow> 'w"
  newMultiaddr :: "string \<Rightarrow> error + multiaddr"
  startNewListener :: "OnionService \<Rightarrow> 'w \<Rightarrow> (error + nat) \<times> 'w"
  upgradeListener :: "manetListener \<Rightarrow> 'l"

subsection \<open>initDialers\<close>

text \<open>
  Lines 98--118. \<open>dialerLock\<close> is held for the whole body, so calls on one transport
  run one after the other: a call is a function from the state before to the state after.
  A factory that returns neither a dialer nor an error breaks the contract of \<open>bine\<close>;
  the nil dialer is then kept as it is, also in \<open>NetDial\<close>.
\<close>

definition initDialers ::
  "('w, 'c, 'l) env \<Rightarrow> TorTransport \<Rightarrow> 'w \<Rightarrow> error option \<times> TorTransport \<times> 'w" where
  "initDialers E t w =
     (if torDialer t \<noteq> None then (None, t, w)
      else
        (case bineDialer E (DialConf (conf t)) w of
           ((d, err), w1) \<Rightarrow>
             (let t1 = t\<lparr>torDialer := d\<rparr> in
              (case err of
                 Some e \<Rightarrow> (Some (''Failed creating tor dialer: '' @ e), t1, w1)
               | None \<Rightarrow>
                   (if WebSocket (conf t1)
                    then (None,
                          t1\<lparr>wsDialer := Some \<lparr>NetDial = torDialer t1, HandshakeTimeout = 45\<rparr>\<rparr>,
                          w1)
                    else (None, t1, w1))))))"

subsection \<open>Dial\<close>

text \<open>Line 62: the host and port handed to the dialer.\<close>

definition dialAddr :: "string \<Rightarrow> int \<Rightarrow> string" where
  "dialAddr onionID port = onionID @ ''.onion:'' @ showInt port"

text \<open>
  Lines 70--85: the raw dial, through the websocket dialer when there is one. With no
  websocket dialer and a nil \<open>torDialer\<close> the method call dereferences nil.
\<close>

definition rawDial ::
  "('w, 'c, 'l) env \<Rightarrow> TorTransport \<Rightarrow> string \<Rightarrow> 'w \<Rightarrow> (error + netConn) go \<times> 'w" where
  "rawDial E t addr w =
     (case wsDialer t of
        Some wsd \<Rightarrow>
          (case wsDial E wsd (''ws://'' @ addr) w of
             (Inl err, w1) \<Rightarrow> (Return (Inl err), w1)
           | (Inr wsConn, w1) \<Rightarrow> (Return (Inr (wsNewConn E wsConn)), w1))
      | None \<Rightarrow>
          (case torDialer t of
             None \<Rightarrow> (Panic, w)
           | Some d \<Rightarrow>
               (case dialContext E d addr w of
                  (Inl err, w1) \<Rightarrow> (Return (Inl err), w1)
                | (Inr c, w1) \<Rightarrow> (Return (Inr c), w1))))"

text \<open>Lines 56--96. No branch of \<open>Dial\<close> closes a connection itself.\<close>

definition Dial ::
  "('w, 'c, 'l) env \<Rightarrow> multiaddr \<Rightarrow> peerID \<Rightarrow> TorTransport \<Rightarrow> 'w
     \<Rightarrow> (error + 'c) go \<times> TorTransport \<times> 'w" where
  "Dial E raddr p t w =
     (case onionInfo E raddr of
        Inl err \<Rightarrow> (Return (Inl err), t, w)
      | Inr (onionID, port) \<Rightarrow>
          (let addr = dialAddr onionID port in
           (case initDialers E t w of
              (Some err, t1, w1) \<Rightarrow> (Return (Inl err), t1, w1)
            | (None, t1, w1) \<Rightarrow>
                (case rawDial E t1 addr w1 of
                   (Panic, w2) \<Rightarrow> (Panic, t1, w2)
                 | (Return (Inl err), w2) \<Rightarrow> (Return (Inl err), t1, w2)
                 | (Return (Inr netConn), w2) \<Rightarrow>
                     (case wrapNetConn E netConn of
                        Inl err \<Rightarrow> (Return (Inl err), t1, w2)
                      | Inr manetConn \<Rightarrow>
                          (case upgradeOutbound E manetConn p w2 of
                             (Inl err, w3) \<Rightarrow> (Return (Inl err), t1, w3)
                           | (Inr conn, w3) \<Rightarrow> (Return (Inr conn), t1, w3)))))))"

subsection \<open>Listen\<close>

text \<open>
  Lines 154--171, the statements after the \<open>defer\<close> of line 147. Besides the returned
  values the result holds the last value assigned to the variable \<open>err\<close> of line 137,
  which the deferred function reads: lines 160 and 165 assign it with \<open>=\<close>, and it is
  nil when \<open>onion.RemotePorts[0]\<close> panics.
\<close>

definition listenBody ::
  "('w, 'c, 'l) env \<Rightarrow> TorTransport \<Rightarrow> OnionService \<Rightarrow> 'w
     \<Rightarrow> (error + 'l) go \<times> error option \<times> 'w" where
  "listenBody E t on w =
     (case RemotePorts on of
        [] \<Rightarrow> (Panic, None, w)
      | port # _ \<Rightarrow>
          (let addrStr = onionAddr E (OnionID on) port;
               addrStr = (if WebSocket (conf t) then addrStr @ ''/ws'' else addrStr)
           in (case newMultiaddr E addrStr of
                 Inl err \<Rightarrow>
                   (Return (Inl (''Failed converting onion address: '' @ err)), Some err, w)
               | Inr m \<Rightarrow>
                   (if WebSocket (conf t)
                    then (case startNewListener E on w of
                            (Inl err, w1) \<Rightarrow>
                              (Return (Inl (''Failed creating websocket: '' @ err)), Some err, w1)
                          | (Inr l, w1) \<Rightarrow>
                              (Return (Inr (upgradeListener E
                                 \<lparr>onion = on, multiaddr = m, listener = WsListener l\<rparr>)),
                               None, w1))
                    else (Return (Inr (upgradeListener E
                            \<lparr>onion = on, multiaddr = m, listener = OnionListener on\<rparr>)),
                          None, w)))))"

text \<open>
  Lines 126--172. The deferred function of lines 147--152 runs when the body has
  returned or panicked and closes the onion service if \<open>err\<close> is not nil.
\<close>

definition Listen ::
  "('w, 'c, 'l) env \<Rightarrow> multiaddr \<Rightarrow> TorTransport \<Rightarrow> 'w \<Rightarrow> (error + 'l) go \<times> 'w" where
  "Listen E laddr t w =
     (case valueForProtocol E laddr of
        Inl err \<Rightarrow> (Return (Inl (''Unable to get protocol value: '' @ err)), w)
      | Inr val \<Rightarrow>
          (if val \<noteq> []
           then (Return (Inl (''Must be '' @ [CHR 0x27] @ ''/onionListen'' @ [CHR 0x27] @
                   '', got '' @ [CHR 0x27] @ ''/onionListen/'' @ val @ [CHR 0x27])), w)
           else
             (case bineListen E w of
                (Inl err, w1) \<Rightarrow> (Return (Inl err), w1)
              | (Inr on, w1) \<Rightarrow>
                  (case listenBody E t on w1 of
                     (ret, err, w2) \<Rightarrow>
                       (ret, if err \<noteq> None then onionClose E on w2 else w2)))))"

section \<open>FindProviders\<close>

text \<open>A \<open>peerstore.PeerInfo\<close> yielded by the DHT.\<close>

record provider =
  peerID :: peerID
  Addrs :: "multiaddr list"

text \<open>
  What \<open>FindProviders\<close> calls: the CID hash, the sequence the channel of
  \<open>FindProvidersAsync\<close> yields until it is closed, \<open>peer.ID.Pretty\<close>, the address
  format and the \<open>%v\<close> rendering of a provider.
\<close>

record dhtEnv =
  hashedCID :: "string \<Rightarrow> error + string"
  findProvidersAsync :: "string \<Rightarrow> int \<Rightarrow> provider list"
  pretty :: "peerID \<Rightarrow> string"
  addrInfo :: "multiaddr \<Rightarrow> error + (string \<times> int)"
  showProvider :: "provider \<Rightarrow> string"

text \<open>Lines 301--310.\<close>

definition makePeerInfo :: "dhtEnv \<Rightarrow> peerID \<Rightarrow> multiaddr \<Rightarrow> error + PeerInfo" where
  "makePeerInfo D pid addr =
     (case addrInfo D addr of
        Inl err \<Rightarrow> Inl err
      | Inr (sid, port) \<Rightarrow> Inr \<lparr>ID = pretty D pid, OnionServiceID = sid, OnionPort = port\<rparr>)"

text \<open>
  The \<open>range\<close> loop of lines 269--276 over the providers still to come; \<open>Inl\<close> is the
  early return of line 272. \<open>p.Addrs[0]\<close> panics on an empty slice.
\<close>

fun providersLoop :: "dhtEnv \<Rightarrow> PeerInfo list \<Rightarrow> provider list \<Rightarrow> (error + PeerInfo list) go" where
  "providersLoop D ret [] = Return (Inr ret)"
| "providersLoop D ret (p # ps) =
     (case Addrs p of
        [] \<Rightarrow> Panic
      | a # _ \<Rightarrow>
          (case makePeerInfo D (peerID p) a of
             Inl err \<Rightarrow>
               Return (Inl (''Failed parsing '' @ [CHR 0x27] @ showProvider D p @ [CHR 0x27] @
                            '': '' @ err))
           | Inr info \<Rightarrow> providersLoop D (ret @ [info]) ps))"

text \<open>The state of the caller's context when line 277 reads it, and \<open>ctx.Err()\<close>.\<close>

datatype ctxState = Live | Expired ctxErr

fun ctxErrOf :: "ctxState \<Rightarrow> error option" where
  "ctxErrOf Live = None"
| "ctxErrOf (Expired c) = Some (ctxErrString c)"

text \<open>
  Lines 262--278. The result is the pair Go returns: the slice (\<open>None\<close> for nil) and
  the error.
\<close>

definition FindProviders ::
  "dhtEnv \<Rightarrow> ctxState \<Rightarrow> string \<Rightarrow> int \<Rightarrow> (PeerInfo list option \<times> error option) go" where
  "FindProviders D ctx ident maxCount =
     (case hashedCID D ident of
        Inl err \<Rightarrow> Return (None, Some err)
      | Inr cid \<Rightarrow>
          (case providersLoop D [] (findProvidersAsync D cid maxCount) of
             Panic \<Rightarrow> Panic
           | Return (Inl err) \<Rightarrow> Return (None, Some err)
           | Return (Inr ret) \<Rightarrow> Return (Some ret, ctxErrOf ctx)))"

section \<open>The address codec\<close>

text \<open>
  Modelled from the spec: the encoder of the address codec
  (\<open>defaultAddrFormat.onionAddr\<close>), whose source is not part of the files at hand.
  The spec gives its output as \<open><identity>.<overlay-suffix>:<port>\<close>, with
  \<open>abcdefghijklmnop.onion:4001\<close> as an instance; line 62 of \<open>Dial\<close> builds the same
  text.
\<close>

definition encode :: "string \<Rightarrow> int \<Rightarrow> string" where
  "encode identity port = identity @ ''.onion:'' @ showInt port"

text \<open>
  Modelled from the spec: a valid pair. The identity is an identifier of at most 52
  characters and the port lies in 1--65535.
\<close>

definition isDigit :: "char \<Rightarrow> bool" where
  "isDigit c \<longleftrightarrow> 48 \<le> (of_char c :: nat) \<and> (of_char c :: nat) \<le> 57"

definition isLower :: "char \<Rightarrow> bool" where
  "isLower c \<longleftrightarrow> 97 \<le> (of_char c :: nat) \<and> (of_char c :: nat) \<le> 122"

definition validIdentity :: "string \<Rightarrow> bool" where
  "validIdentity s \<longleftrightarrow> s \<noteq> [] \<and> length s \<le> 52 \<and> list_all (\<lambda>c. isLower c \<or> isDigit c) s"

definition validPort :: "int \<Rightarrow> bool" where
  "validPort p \<longleftrightarrow> 1 \<le> p \<and> p \<le> 65535"

text \<open>Reading a run of decimal digits, most significant first.\<close>

fun parseDigits :: "nat \<Rightarrow> string \<Rightarrow> nat option" where
  "parseDigits acc [] = Some acc"
| "parseDigits acc (c # cs) =
     (if isDigit c then parseDigits (10 * acc + (of_char c - 48)) cs else None)"

definition parseNat :: "string \<Rightarrow> nat option" where
  "parseNat s = (if s = [] then None else parseDigits 0 s)"

text \<open>
  Modelled from the spec: the decoder of the address codec
  (\<open>defaultAddrFormat.onionInfo\<close>), whose source is not part of the files at hand, on
  the text form of an address. It fails with \<open>AddressFormatInvalid\<close> unless the text is
  exactly a valid identity, the overlay suffix and a valid port.
\<close>

definition decode :: "string \<Rightarrow> error + (string \<times> int)" where
  "decode s =
     (let identity = takeWhile (\<lambda>c. c \<noteq> CHR ''.'') s;
          rest = dropWhile (\<lambda>c. c \<noteq> CHR ''.'') s
      in if \<not> validIdentity identity \<or> take 7 rest \<noteq> ''.onion:''
         then Inl ''AddressFormatInvalid''
         else (case parseNat (drop 7 rest) of
                 None \<Rightarrow> Inl ''AddressFormatInvalid''
               | Some n \<Rightarrow>
                   (if validPort (int n) then Inr (identity, int n)
                    else Inl ''AddressFormatInvalid'')))"

section \<open>Statement helpers and concrete inputs\<close>

text \<open>
  The \<open>PeerInfo\<close> that the loop body of \<open>FindProviders\<close> appends for a provider, if
  it gets that far without a panic or an error.
\<close>

definition converted :: "dhtEnv \<Rightarrow> provider \<Rightarrow> PeerInfo option" where
  "converted D p =
     (case Addrs p of
        [] \<Rightarrow> None
      | a # _ \<Rightarrow> (case makePeerInfo D (peerID p) a of Inl err \<Rightarrow> None | Inr info \<Rightarrow> Some info))"

definition peer0 :: PeerInfo where
  "peer0 = \<lparr>ID = ''Qm'', OnionServiceID = ''abcdefghijklmnop'', OnionPort = 4001\<rparr>"

text \<open>
  A world for stub collaborators: the raw connections now open, the number of overlay
  dialers created, the onion services now registered and the teardown calls made.
\<close>

record world =
  openConns :: "netConn list"
  dialers :: nat
  services :: "string list"
  teardowns :: "string list"

definition world0 :: world where
  "world0 = \<lparr>openConns = [], dialers = 0, services = [], teardowns = []\<rparr>"

text \<open>
  Stub collaborators: the dialer factory counts its calls, every dial opens connection 7,
  the upgrader fails and leaves the connection as it is, the websocket listener cannot be
  started.
\<close>

definition stubEnv :: "(world, nat, nat) env" where
  "stubEnv =
     \<lparr>onionInfo = (\<lambda>a. Inr (''abcdefghijklmnop'', 4001)),
      onionAddr = (\<lambda>ident port. ''/onion/'' @ ident),
      bineDialer = (\<lambda>dc w. ((Some (dialers w), None), w\<lparr>dialers := Suc (dialers w)\<rparr>)),
      wsDial = (\<lambda>wsd url w. (Inr 7, w\<lparr>openConns := 7 # openConns w\<rparr>)),
      wsNewConn = (\<lambda>c. c),
      dialContext = (\<lambda>d addr w. (Inr 7, w\<lparr>openConns := 7 # openConns w\<rparr>)),
      wrapNetConn = Inr,
      upgradeOutbound = (\<lambda>c p w. (Inl ''no security protocol'', w)),
      valueForProtocol = (\<lambda>a. Inr []),
      bineListen = (\<lambda>w. (Inr \<lparr>OnionID = ''abcdefghijklmnop'', RemotePorts = [4001]\<rparr>,
                          w\<lparr>services := ''abcdefghijklmnop'' # services w\<rparr>)),
      onionClose = (\<lambda>on w. w\<lparr>services := removeAll (OnionID on) (services w),
                               teardowns := teardowns w @ [OnionID on]\<rparr>),
      newMultiaddr = Inr,
      startNewListener = (\<lambda>on w. (Inl ''handshake refused'', w)),
      upgradeListener = (\<lambda>m. 0)\<rparr>"

definition transport0 :: "bool \<Rightarrow> TorTransport" where
  "transport0 ws =
     \<lparr>conf = \<lparr>DialConf = 0, WebSocket = ws\<rparr>, torDialer = None, wsDialer = None\<rparr>"

text \<open>Stub providers and a stub DHT yielding a given sequence, cut at \<open>maxCount\<close>.\<close>

definition provGood :: provider where
  "provGood = \<lparr>peerID = ''Qm'', Addrs = [''/onion/abcdefghijklmnop:4001'']\<rparr>"

definition provBad :: provider where
  "provBad = \<lparr>peerID = ''QmBad'', Addrs = [''/ip4/10.0.0.1/tcp/80'']\<rparr>"

definition provNoAddr :: provider where
  "provNoAddr = \<lparr>peerID = ''QmNone'', Addrs = []\<rparr>"

definition stubDht :: "provider list \<Rightarrow> dhtEnv" where
  "stubDht provs =
     \<lparr>hashedCID = Inr,
      findProvidersAsync = (\<lambda>cid maxCount. take (nat maxCount) provs),
      pretty = (\<lambda>p. p),
      addrInfo = (\<lambda>a. if a = ''/onion/abcdefghijklmnop:4001''
                       then Inr (''abcdefghijklmnop'', 4001)
                       else Inl ''not an onion address''),
      showProvider = peerID\<rparr>"

section \<open>Properties of connectPeers\<close>

subsection \<open>The loop on a split schedule\<close>

lemma successes_simps [simp]:
  "successes [] = 0"
  "successes (PeerConn None # evs) = Suc (successes evs)"
  "successes (PeerConn (Some e) # evs) = successes evs"
  "successes (Done c # evs) = successes evs"
  by (simp_all add: successes_def)

lemma failures_simps [simp]:
  "failures [] = []"
  "failures (PeerConn None # evs) = failures evs"
  "failures (PeerConn (Some e) # evs) = e # failures evs"
  "failures (Done c # evs) = failures evs"
  by (simp_all add: failures_def)

lemma selectLoop_append:
  "selectLoop n r errs c (pre @ post) =
     (case selectLoop n r errs c pre of
        Some x \<Rightarrow> Some x
      | None \<Rightarrow> selectLoop n r (errs @ failures pre) (c + int (successes pre)) post)"
  by (induction n r errs c pre rule: selectLoop.induct)
    (simp_all add: add.assoc cong: option.case_cong)

lemma selectLoop_pending_successes:
  "selectLoop n r errs c pre = None \<Longrightarrow> successes pre = 0 \<or> c + int (successes pre) < r"
  by (induction n r errs c pre rule: selectLoop.induct) (auto split: if_splits)


lemma selectLoop_pending_no_Done:
  "selectLoop n r errs c pre = None \<Longrightarrow> Done x \<notin> set pre"
  by (induction n r errs c pre rule: selectLoop.induct) (auto split: if_splits)

lemma selectLoop_success_split:
  "selectLoop n r errs c sched = Some None \<Longrightarrow>
   \<exists>pre rest. sched = pre @ PeerConn None # rest \<and> selectLoop n r errs c pre = None \<and>
     r \<le> c + int (successes pre) + 1"
proof (induction n r errs c sched rule: selectLoop.induct)
  case (1 n r errs c)
  then show ?case by simp
next
  case (2 n r errs c sched)
  show ?case
  proof (cases "c + 1 \<ge> r")
    case True
    have "PeerConn None # sched = [] @ PeerConn None # sched" by simp
    moreover have "selectLoop n r errs c [] = None" by simp
    moreover have "r \<le> c + int (successes []) + 1" using True by simp
    ultimately show ?thesis by blast
  next
    case False
    with 2 obtain pre rest where
      s: "sched = pre @ PeerConn None # rest" and
      p: "selectLoop n r errs (c + 1) pre = None" and
      q: "r \<le> c + 1 + int (successes pre) + 1"
      by auto
    have "PeerConn None # sched = (PeerConn None # pre) @ PeerConn None # rest"
      using s by simp
    moreover have "selectLoop n r errs c (PeerConn None # pre) = None"
      using False p by simp
    moreover have "r \<le> c + int (successes (PeerConn None # pre)) + 1"
      using q by simp
    ultimately show ?thesis by blast
  qed
next
  case (3 n r errs c e sched)
  show ?case
  proof (cases "int (length (errs @ [e])) > int64 (int n - r)")
    case True
    with 3 show ?thesis by simp
  next
    case False
    with 3 obtain pre rest where
      s: "sched = pre @ PeerConn None # rest" and
      p: "selectLoop n r (errs @ [e]) c pre = None" and
      q: "r \<le> c + int (successes pre) + 1"
      by auto
    have "PeerConn (Some e) # sched = (PeerConn (Some e) # pre) @ PeerConn None # rest"
      using s by simp
    moreover have "selectLoop n r errs c (PeerConn (Some e) # pre) = None"
      using False p by simp
    moreover have "r \<le> c + int (successes (PeerConn (Some e) # pre)) + 1"
      using q by simp
    ultimately show ?thesis by blast
  qed
next
  case (4 n r errs c x sched)
  then show ?case by simp
qed

subsection \<open>The text of the returned errors\<close>

lemma joinSp_mentions: "e \<in> set es \<Longrightarrow> \<exists>a b. joinSp es = a @ e @ b"
proof (induction es rule: joinSp.induct)
  case 1
  then show ?case by simp
next
  case (2 x)
  then have "joinSp [x] = [] @ e @ []" by simp
  then show ?case by blast
next
  case (3 x y ys)
  show ?case
  proof (cases "e = x")
    case True
    then have "joinSp (x # y # ys) = [] @ e @ ('' '' @ joinSp (y # ys))" by simp
    then show ?thesis by blast
  next
    case False
    with 3 obtain a b where "joinSp (y # ys) = a @ e @ b" by auto
    then have "joinSp (x # y # ys) = (x @ '' '' @ a) @ e @ b" by simp
    then show ?thesis by blast
  qed
qed

lemma fmtSlice_mentions: "e \<in> set es \<Longrightarrow> \<exists>a b. fmtSlice es = a @ e @ b"
proof -
  assume "e \<in> set es"
  then obtain a b where "joinSp es = a @ e @ b" using joinSp_mentions by blast
  then have "fmtSlice es = (''['' @ a) @ e @ (b @ '']'')" by (simp add: fmtSlice_def)
  then show ?thesis by blast
qed

text \<open>Every recorded failure reason occurs in the text of either error.\<close>

lemma errorString_mentions:
  assumes "e \<in> set es"
  shows "\<exists>a b. errorString (ManyFailures es) = a @ e @ b"
    and "\<exists>a b. errorString (ContextErrored c es) = a @ e @ b"
proof -
  from assms obtain a b where f: "fmtSlice es = a @ e @ b" using fmtSlice_mentions by blast
  have "errorString (ManyFailures es) =
      (''Many failures, unable to get enough peers: '' @ a) @ e @ b"
    by (simp add: f)
  then show "\<exists>a b. errorString (ManyFailures es) = a @ e @ b" by blast
  have "errorString (ContextErrored c es) =
      (''Context errored with '' @ [CHR 0x27] @ ctxErrString c @ [CHR 0x27] @
       '', peer errors: '' @ a) @ e @ b"
    by (simp add: f)
  then show "\<exists>a b. errorString (ContextErrored c es) = a @ e @ b" by blast
qed

subsection \<open>When the call returns, and what\<close>

text \<open>
  Claim C1. With \<open>R\<close> the clamped minimum, \<open>connectPeers\<close> returns nil exactly when the
  loop, still waiting after the events \<open>pre\<close>, receives a successful result that brings the
  number of successes to at least \<open>R\<close>. It returns at that event, whatever events
  \<open>rest\<close> would follow, so it does not wait for the remaining attempts; and it never
  returns nil with fewer than \<open>R\<close> successes received.
\<close>

theorem connectPeers_succeeds_at_quorum:
  "connectPeers sched peers minRequired = Some None \<longleftrightarrow>
     (\<exists>pre rest. sched = pre @ PeerConn None # rest \<and>
        connectPeers pre peers minRequired = None \<and>
        clampMinRequired peers minRequired \<le> int (successes pre) + 1)"
proof
  assume "connectPeers sched peers minRequired = Some None"
  then show "\<exists>pre rest. sched = pre @ PeerConn None # rest \<and>
        connectPeers pre peers minRequired = None \<and>
        clampMinRequired peers minRequired \<le> int (successes pre) + 1"
    unfolding connectPeers_def using selectLoop_success_split [of "length peers" "clampMinRequired peers minRequired" "[]" 0 sched] by simp
next
  assume "\<exists>pre rest. sched = pre @ PeerConn None # rest \<and>
        connectPeers pre peers minRequired = None \<and>
        clampMinRequired peers minRequired \<le> int (successes pre) + 1"
  then obtain pre rest where
    s: "sched = pre @ PeerConn None # rest" and
    p: "selectLoop (length peers) (clampMinRequired peers minRequired) [] 0 pre = None" and
    q: "clampMinRequired peers minRequired \<le> int (successes pre) + 1"
    unfolding connectPeers_def by blast
  show "connectPeers sched peers minRequired = Some None"
    unfolding connectPeers_def s by (simp add: selectLoop_append p q)
qed

lemma selectLoop_ManyFailures_split:
  "selectLoop n r errs c sched = Some (Some (ManyFailures es)) \<Longrightarrow>
   \<exists>pre e rest. sched = pre @ PeerConn (Some e) # rest \<and> selectLoop n r errs c pre = None \<and>
     es = errs @ failures pre @ [e] \<and> int64 (int n - r) < int (length es)"
proof (induction n r errs c sched rule: selectLoop.induct)
  case (1 n r errs c)
  then show ?case by simp
next
  case (2 n r errs c sched)
  from 2 have nq: "\<not> r \<le> c + 1" by (auto split: if_splits)
  with 2 obtain pre e rest where
    s: "sched = pre @ PeerConn (Some e) # rest" and
    p: "selectLoop n r errs (c + 1) pre = None" and
    q: "es = errs @ failures pre @ [e]" "int64 (int n - r) < int (length es)"
    by auto
  have "PeerConn None # sched = (PeerConn None # pre) @ PeerConn (Some e) # rest"
    using s by simp
  moreover have "selectLoop n r errs c (PeerConn None # pre) = None"
    using nq p by simp
  moreover have "es = errs @ failures (PeerConn None # pre) @ [e]"
    using q by simp
  ultimately show ?case using q(2) by blast
next
  case (3 n r errs c e0 sched)
  show ?case
  proof (cases "int (length (errs @ [e0])) > int64 (int n - r)")
    case True
    with 3 have es: "es = errs @ [e0]" by simp
    have "PeerConn (Some e0) # sched = [] @ PeerConn (Some e0) # sched" by simp
    moreover have "selectLoop n r errs c [] = None" by simp
    moreover have "es = errs @ failures [] @ [e0]" using es by simp
    moreover have "int64 (int n - r) < int (length es)" using True es by simp
    ultimately show ?thesis by blast
  next
    case False
    with 3 obtain pre e rest where
      s: "sched = pre @ PeerConn (Some e) # rest" and
      p: "selectLoop n r (errs @ [e0]) c pre = None" and
      q: "es = (errs @ [e0]) @ failures pre @ [e]" "int64 (int n - r) < int (length es)"
      by auto
    have "PeerConn (Some e0) # sched = (PeerConn (Some e0) # pre) @ PeerConn (Some e) # rest"
      using s by simp
    moreover have "selectLoop n r errs c (PeerConn (Some e0) # pre) = None"
      using False p by simp
    moreover have "es = errs @ failures (PeerConn (Some e0) # pre) @ [e]"
      using q by simp
    ultimately show ?thesis using q(2) by blast
  qed
next
  case (4 n r errs c x sched)
  then show ?case by simp
qed

lemma selectLoop_ContextErrored_split:
  "selectLoop n r errs c sched = Some (Some (ContextErrored x es)) \<Longrightarrow>
   \<exists>pre rest. sched = pre @ Done x # rest \<and> selectLoop n r errs c pre = None \<and>
     es = errs @ failures pre"
proof (induction n r errs c sched rule: selectLoop.induct)
  case (1 n r errs c)
  then show ?case by simp
next
  case (2 n r errs c sched)
  from 2 have nq: "\<not> r \<le> c + 1" by (auto split: if_splits)
  with 2 obtain pre rest where
    s: "sched = pre @ Done x # rest" and
    p: "selectLoop n r errs (c + 1) pre = None" and
    q: "es = errs @ failures pre"
    by auto
  have "PeerConn None # sched = (PeerConn None # pre) @ Done x # rest"
    using s by simp
  moreover have "selectLoop n r errs c (PeerConn None # pre) = None"
    using nq p by simp
  moreover have "es = errs @ failures (PeerConn None # pre)"
    using q by simp
  ultimately show ?case by blast
next
  case (3 n r errs c e0 sched)
  from 3 have nq: "\<not> int (length (errs @ [e0])) > int64 (int n - r)"
    by (auto split: if_splits)
  with 3 obtain pre rest where
    s: "sched = pre @ Done x # rest" and
    p: "selectLoop n r (errs @ [e0]) c pre = None" and
    q: "es = (errs @ [e0]) @ failures pre"
    by auto
  have "PeerConn (Some e0) # sched = (PeerConn (Some e0) # pre) @ Done x # rest"
    using s by simp
  moreover have "selectLoop n r errs c (PeerConn (Some e0) # pre) = None"
    using nq p by simp
  moreover have "es = errs @ failures (PeerConn (Some e0) # pre)"
    using q by simp
  ultimately show ?case by blast
next
  case (4 n r errs c y sched)
  then have "y = x" "es = errs" by simp_all
  then have "Done y # sched = [] @ Done x # sched \<and> selectLoop n r errs c [] = None \<and>
    es = errs @ failures []" by simp
  then show ?case by blast
qed

lemma clampMinRequired_le: "clampMinRequired peers minRequired \<le> int (length peers)"
  by (simp add: clampMinRequired_def)

lemma int64_id: "- (2 ^ 63) \<le> x \<Longrightarrow> x < 2 ^ 63 \<Longrightarrow> int64 x = x"
  by (simp add: int64_def)

lemma budget_no_overflow:
  assumes "int (length peers) - clampMinRequired peers minRequired < 2 ^ 63"
  shows "int64 (int (length peers) - clampMinRequired peers minRequired) =
    int (length peers) - clampMinRequired peers minRequired"
proof -
  have "0 \<le> int (length peers) - clampMinRequired peers minRequired"
    using clampMinRequired_le [of peers minRequired] by simp
  then have "- (2 ^ 63) \<le> int (length peers) - clampMinRequired peers minRequired"
    by simp
  then show ?thesis using assms by (rule int64_id)
qed



lemma received_length:
  "length (received sched) = successes sched + length (failures sched)"
proof (induction sched)
  case Nil
  show ?case by (simp add: received_def)
next
  case (Cons ev sched)
  then have ih: "length (received sched) = successes sched + length (failures sched)" .
  show ?case
  proof (cases ev)
    case (PeerConn m)
    with ih show ?thesis by (cases m) (simp_all add: received_def)
  next
    case (Done c)
    with ih show ?thesis by (simp add: received_def)
  qed
qed

lemma feasible_length:
  assumes "feasible connectPeer showPeer peers sched"
  shows "successes sched + length (failures sched) \<le> length peers"
proof -
  have "size (mset (received sched)) \<le> size (mset (peerConnCh connectPeer showPeer peers))"
    using assms unfolding feasible_def by (rule size_mset_mono)
  then show ?thesis by (simp add: received_length peerConnCh_def)
qed

text \<open>
  On a feasible schedule in which the context is never done, enough successes make the
  call return nil.
\<close>

lemma connectPeers_quorum_reached:
  assumes f: "feasible connectPeer showPeer peers sched"
    and nd: "\<forall>c. Done c \<notin> set sched"
    and no: "int (length peers) - clampMinRequired peers minRequired < 2 ^ 63"
    and q: "max 1 (clampMinRequired peers minRequired) \<le> int (successes sched)"
  shows "connectPeers sched peers minRequired = Some None"
proof -
  let ?n = "length peers" and ?r = "clampMinRequired peers minRequired"
  have b: "int64 (int ?n - ?r) = int ?n - ?r" using no by (rule budget_no_overflow)
  have len: "successes sched + length (failures sched) \<le> ?n" using f by (rule feasible_length)
  show ?thesis
  proof (cases "selectLoop ?n ?r [] 0 sched")
    case None
    then have "successes sched = 0 \<or> 0 + int (successes sched) < ?r"
      by (rule selectLoop_pending_successes)
    with q show ?thesis by auto
  next
    case (Some res)
    show ?thesis
    proof (cases res)
      case None
      with Some show ?thesis by (simp add: connectPeers_def)
    next
      case (Some err)
      show ?thesis
      proof (cases err)
        case (ManyFailures es)
        with Some \<open>selectLoop ?n ?r [] 0 sched = Some res\<close> obtain pre e rest where
          s: "sched = pre @ PeerConn (Some e) # rest" and
          es: "es = [] @ failures pre @ [e]" "int64 (int ?n - ?r) < int (length es)"
          using selectLoop_ManyFailures_split [of ?n ?r "[]" 0 sched es] by blast
        have "length es \<le> length (failures sched)"
          using s es(1) by (simp add: failures_def)
        with es(2) b len q show ?thesis by auto
      next
        case (ContextErrored c es)
        with Some \<open>selectLoop ?n ?r [] 0 sched = Some res\<close> obtain pre rest where
          "sched = pre @ Done c # rest"
          using selectLoop_ContextErrored_split [of ?n ?r "[]" 0 sched c es] by blast
        with nd show ?thesis by auto
      qed
    qed
  qed
qed

text \<open>
  Five candidates, three required; three attempts succeed and two fail.
\<close>

theorem connectPeers_succeeds_at_quorum_witness:
  "\<exists>pre rest. [PeerConn None, PeerConn (Some ''x''), PeerConn None, PeerConn (Some ''y''),
        PeerConn None] = pre @ PeerConn None # rest \<and>
      connectPeers pre (replicate 5 peer0) 3 = None \<and>
      clampMinRequired (replicate 5 peer0) 3 \<le> int (successes pre) + 1"
proof -
  have "connectPeers [PeerConn None, PeerConn (Some ''x''), PeerConn None, PeerConn (Some ''y''),
        PeerConn None] (replicate 5 peer0) 3 = Some None"
    by (simp add: connectPeers_def clampMinRequired_def int64_def)
  with connectPeers_succeeds_at_quorum [of "[PeerConn None, PeerConn (Some ''x''),
    PeerConn None, PeerConn (Some ''y''), PeerConn None]" "replicate 5 peer0" 3]
  show ?thesis by blast
qed






section \<open>Properties of the transport\<close>

lemma initDialers_inited:
  "torDialer t = Some d \<Longrightarrow> initDialers E t w = (None, t, w)"
  by (simp add: initDialers_def)

lemma rawDial_factory_free:
  "rawDial (E\<lparr>bineDialer := f\<rparr>) t addr w = rawDial E t addr w"
  by (simp add: rawDial_def split: option.splits prod.splits sum.splits)

text \<open>
  Claim C6. Once \<open>torDialer\<close> is set, a call of \<open>initDialers\<close> returns nil and leaves
  the transport and the world as they were; a \<open>Dial\<close>, whatever its outcome, leaves the
  transport as it was and does not depend on the dialer factory, which is thus never called
  again. Calls on one transport are serialised by \<open>dialerLock\<close>.
\<close>

theorem initDialers_creates_once:
  assumes "torDialer t = Some d"
  shows "initDialers E t w = (None, t, w) \<and>
         fst (snd (Dial E raddr p t w)) = t \<and>
         Dial (E\<lparr>bineDialer := f\<rparr>) raddr p t w = Dial E raddr p t w"
proof -
  have i: "\<And>E' :: ('a, 'b, 'c) env. initDialers E' t w = (None, t, w)"
    using assms by (rule initDialers_inited)
  have "fst (snd (Dial E raddr p t w)) = t"
    by (simp add: Dial_def i split: sum.splits prod.splits go.splits)
  moreover have "Dial (E\<lparr>bineDialer := f\<rparr>) raddr p t w = Dial E raddr p t w"
    by (simp add: Dial_def i rawDial_factory_free split: sum.splits prod.splits go.splits)
  ultimately show ?thesis using i by simp
qed


text \<open>
  Claim C5, amended. When the raw stream is established and wrapped but the upgrader
  fails, \<open>Dial\<close> returns the upgrader's error as it is and does nothing more: the world,
  and the raw connection in it, is as the upgrader left it. The connection is closed only
  if the upgrader closed it.
\<close>

theorem Dial_upgrade_failure:
  assumes "onionInfo E raddr = Inr (onionID, port)"
    and "initDialers E t w = (None, t1, w1)"
    and "rawDial E t1 (dialAddr onionID port) w1 = (Return (Inr netConn), w2)"
    and "wrapNetConn E netConn = Inr manetConn"
    and "upgradeOutbound E manetConn p w2 = (Inl err, w3)"
  shows "Dial E raddr p t w = (Return (Inl err), t1, w3)"
  using assms by (simp add: Dial_def)

text \<open>
  Claim C4. In websocket mode, when the onion service has been registered and then either
  the conversion of the derived address or the start of the websocket listener fails,
  \<open>Listen\<close> returns the wrapped error and the last action on the world is the close of
  that onion service.
\<close>

theorem Listen_rolls_back:
  assumes "WebSocket (conf t)"
    and "valueForProtocol E laddr = Inr []"
    and "bineListen E w = (Inr on, w1)"
    and "RemotePorts on = port # ports"
    and "newMultiaddr E (onionAddr E (OnionID on) port @ ''/ws'') = Inl err \<and> w2 = w1 \<and>
           msg = ''Failed converting onion address: '' @ err \<or>
         (\<exists>m. newMultiaddr E (onionAddr E (OnionID on) port @ ''/ws'') = Inr m) \<and>
           startNewListener E on w1 = (Inl err, w2) \<and>
           msg = ''Failed creating websocket: '' @ err"
  shows "Listen E laddr t w = (Return (Inl msg), onionClose E on w2)"
  using assms by (auto simp: Listen_def listenBody_def)


text \<open>
  A first call creates dialer 0 (and the websocket dialer over it); the second call changes
  nothing, and the factory has been called once.
\<close>

theorem initDialers_creates_once_witness:
  "torDialer (fst (snd (initDialers stubEnv (transport0 True) world0))) = Some 0 \<and>
   initDialers stubEnv (fst (snd (initDialers stubEnv (transport0 True) world0)))
     (snd (snd (initDialers stubEnv (transport0 True) world0))) =
   (None, \<lparr>conf = \<lparr>DialConf = 0, WebSocket = True\<rparr>, torDialer = Some 0,
            wsDialer = Some \<lparr>NetDial = Some 0, HandshakeTimeout = 45\<rparr>\<rparr>,
    \<lparr>openConns = [], dialers = 1, services = [], teardowns = []\<rparr>)"
proof -
  have h: "torDialer (fst (snd (initDialers stubEnv (transport0 True) world0))) = Some 0"
    by (simp add: initDialers_def stubEnv_def transport0_def world0_def)
  have "fst (snd (initDialers stubEnv (transport0 True) world0)) =
      \<lparr>conf = \<lparr>DialConf = 0, WebSocket = True\<rparr>, torDialer = Some 0,
            wsDialer = Some \<lparr>NetDial = Some 0, HandshakeTimeout = 45\<rparr>\<rparr>"
    and "snd (snd (initDialers stubEnv (transport0 True) world0)) =
      \<lparr>openConns = [], dialers = 1, services = [], teardowns = []\<rparr>"
    by (simp_all add: initDialers_def stubEnv_def transport0_def world0_def)
  with h initDialers_creates_once [OF h, of stubEnv
      "snd (snd (initDialers stubEnv (transport0 True) world0))"]
  show ?thesis by simp
qed

text \<open>
  Claim C5 as stated fails: with an upgrader that fails and leaves the connection alone,
  \<open>Dial\<close> returns the error while connection 7 is still open.
\<close>

theorem Dial_upgrade_failure_counterexample:
  "Dial stubEnv ''/onion/abcdefghijklmnop:4001'' ''Qm'' (transport0 False) world0 =
     (Return (Inl ''no security protocol''),
      \<lparr>conf = \<lparr>DialConf = 0, WebSocket = False\<rparr>, torDialer = Some 0, wsDialer = None\<rparr>,
      \<lparr>openConns = [7], dialers = 1, services = [], teardowns = []\<rparr>)"
  by (simp add: Dial_def initDialers_def rawDial_def stubEnv_def transport0_def world0_def)

text \<open>
  The same stubs in websocket mode.
\<close>

theorem Dial_upgrade_failure_witness:
  "Dial stubEnv ''/onion/abcdefghijklmnop:4001'' ''Qm'' (transport0 True) world0 =
     (Return (Inl ''no security protocol''),
      \<lparr>conf = \<lparr>DialConf = 0, WebSocket = True\<rparr>, torDialer = Some 0,
         wsDialer = Some \<lparr>NetDial = Some 0, HandshakeTimeout = 45\<rparr>\<rparr>,
      \<lparr>openConns = [7], dialers = 1, services = [], teardowns = []\<rparr>)"
proof -
  let ?t1 = "\<lparr>conf = \<lparr>DialConf = 0, WebSocket = True\<rparr>, torDialer = Some 0,
         wsDialer = Some \<lparr>NetDial = Some 0, HandshakeTimeout = 45\<rparr>\<rparr>"
  let ?w1 = "\<lparr>openConns = [], dialers = 1, services = [], teardowns = []\<rparr>"
  let ?w2 = "\<lparr>openConns = [7], dialers = 1, services = [], teardowns = []\<rparr>"
  have a: "onionInfo stubEnv ''/onion/abcdefghijklmnop:4001'' = Inr (''abcdefghijklmnop'', 4001)"
    by (simp add: stubEnv_def)
  have b: "initDialers stubEnv (transport0 True) world0 = (None, ?t1, ?w1)"
    by (simp add: initDialers_def stubEnv_def transport0_def world0_def)
  have c: "rawDial stubEnv ?t1 (dialAddr ''abcdefghijklmnop'' 4001) ?w1 = (Return (Inr 7), ?w2)"
    by (simp add: rawDial_def stubEnv_def)
  have d: "wrapNetConn stubEnv 7 = Inr 7"
    by (simp add: stubEnv_def)
  have e: "upgradeOutbound stubEnv 7 ''Qm'' ?w2 = (Inl ''no security protocol'', ?w2)"
    by (simp add: stubEnv_def)
  show ?thesis by (rule Dial_upgrade_failure [OF a b c d e])
qed

text \<open>
  The stub registers the service, the websocket listener fails, and the teardown is
  recorded.
\<close>

theorem Listen_rolls_back_witness:
  "Listen stubEnv ''/onionListen'' (transport0 True) world0 =
     (Return (Inl ''Failed creating websocket: handshake refused''),
      \<lparr>openConns = [], dialers = 0, services = [], teardowns = [''abcdefghijklmnop'']\<rparr>)"
proof -
  let ?on = "\<lparr>OnionID = ''abcdefghijklmnop'', RemotePorts = [4001]\<rparr>"
  let ?w1 = "\<lparr>openConns = [], dialers = 0, services = [''abcdefghijklmnop''], teardowns = []\<rparr>"
  have a: "WebSocket (conf (transport0 True))"
    by (simp add: transport0_def)
  have b: "valueForProtocol stubEnv ''/onionListen'' = Inr []"
    by (simp add: stubEnv_def)
  have c: "bineListen stubEnv world0 = (Inr ?on, ?w1)"
    by (simp add: stubEnv_def world0_def)
  have d: "RemotePorts ?on = 4001 # []"
    by simp
  have e: "newMultiaddr stubEnv (onionAddr stubEnv (OnionID ?on) 4001 @ ''/ws'') =
             Inl ''handshake refused'' \<and> ?w1 = ?w1 \<and>
           ''Failed creating websocket: handshake refused'' =
             ''Failed converting onion address: '' @ ''handshake refused'' \<or>
         (\<exists>m. newMultiaddr stubEnv (onionAddr stubEnv (OnionID ?on) 4001 @ ''/ws'') = Inr m) \<and>
           startNewListener stubEnv ?on ?w1 = (Inl ''handshake refused'', ?w1) \<and>
           ''Failed creating websocket: handshake refused'' =
             ''Failed creating websocket: '' @ ''handshake refused''"
    by (simp add: stubEnv_def)
  have "Listen stubEnv ''/onionListen'' (transport0 True) world0 =
     (Return (Inl ''Failed creating websocket: handshake refused''), onionClose stubEnv ?on ?w1)"
    by (rule Listen_rolls_back [OF a b c d e])
  then show ?thesis by (simp add: stubEnv_def)
qed

section \<open>Properties of FindProviders\<close>

lemma providersLoop_converted:
  "\<forall>q \<in> set pre. converted D q \<noteq> None \<Longrightarrow>
   providersLoop D ret (pre @ rest) = providersLoop D (ret @ map (\<lambda>q. the (converted D q)) pre) rest"
proof (induction pre arbitrary: ret)
  case Nil
  show ?case by simp
next
  case (Cons q pre)
  from Cons.prems obtain a as info where
    q: "Addrs q = a # as" "makePeerInfo D (peerID q) a = Inr info" "converted D q = Some info"
    by (auto simp: converted_def split: list.splits sum.splits)
  from Cons.prems have "\<forall>q \<in> set pre. converted D q \<noteq> None" by simp
  then have "providersLoop D (ret @ [info]) (pre @ rest) =
      providersLoop D ((ret @ [info]) @ map (\<lambda>q. the (converted D q)) pre) rest"
    by (rule Cons.IH)
  with q show ?case by simp
qed

lemma providersLoop_Panic_split:
  "providersLoop D ret provs = Panic \<Longrightarrow>
   \<exists>pre p post. provs = pre @ p # post \<and> Addrs p = [] \<and> (\<forall>q \<in> set pre. converted D q \<noteq> None)"
proof (induction provs arbitrary: ret)
  case Nil
  then show ?case by simp
next
  case (Cons q provs)
  show ?case
  proof (cases "Addrs q")
    case Nil
    then have "q # provs = [] @ q # provs \<and> Addrs q = [] \<and> (\<forall>q \<in> set []. converted D q \<noteq> None)"
      by simp
    then show ?thesis by blast
  next
    case (Cons a as)
    with Cons.prems obtain info where
      i: "makePeerInfo D (peerID q) a = Inr info" "providersLoop D (ret @ [info]) provs = Panic"
      by (auto split: sum.splits)
    from Cons.IH [OF i(2)] obtain pre p post where
      s: "provs = pre @ p # post" "Addrs p = []" "\<forall>q \<in> set pre. converted D q \<noteq> None"
      by blast
    have "q # provs = (q # pre) @ p # post" using s(1) by simp
    moreover have "\<forall>x \<in> set (q # pre). converted D x \<noteq> None"
      using s(3) i(1) Cons by (simp add: converted_def)
    ultimately show ?thesis using s(2) by blast
  qed
qed

text \<open>
  Claim C9. \<open>FindProviders\<close> panics exactly when the loop reaches a provider without
  addresses, that is, when such a provider is yielded after providers that were all
  converted; if every yielded provider has an address it does not panic.
\<close>

theorem FindProviders_panics_on_empty_Addrs:
  assumes "hashedCID D ident = Inr cid"
  shows "(FindProviders D ctx ident maxCount = Panic \<longleftrightarrow>
          (\<exists>pre p post. findProvidersAsync D cid maxCount = pre @ p # post \<and> Addrs p = [] \<and>
             (\<forall>q \<in> set pre. converted D q \<noteq> None))) \<and>
         ((\<forall>p \<in> set (findProvidersAsync D cid maxCount). Addrs p \<noteq> []) \<longrightarrow>
          FindProviders D ctx ident maxCount \<noteq> Panic)"
proof -
  let ?provs = "findProvidersAsync D cid maxCount"
  have fp: "FindProviders D ctx ident maxCount = Panic \<longleftrightarrow> providersLoop D [] ?provs = Panic"
    using assms by (simp add: FindProviders_def split: go.splits sum.splits)
  have iff: "providersLoop D [] ?provs = Panic \<longleftrightarrow>
      (\<exists>pre p post. ?provs = pre @ p # post \<and> Addrs p = [] \<and>
             (\<forall>q \<in> set pre. converted D q \<noteq> None))"
  proof
    assume "providersLoop D [] ?provs = Panic"
    then show "\<exists>pre p post. ?provs = pre @ p # post \<and> Addrs p = [] \<and>
             (\<forall>q \<in> set pre. converted D q \<noteq> None)"
      by (rule providersLoop_Panic_split)
  next
    assume "\<exists>pre p post. ?provs = pre @ p # post \<and> Addrs p = [] \<and>
             (\<forall>q \<in> set pre. converted D q \<noteq> None)"
    then obtain pre p post where
      s: "?provs = pre @ p # post" "Addrs p = []" "\<forall>q \<in> set pre. converted D q \<noteq> None"
      by blast
    show "providersLoop D [] ?provs = Panic"
      unfolding s(1) using s(2) by (simp add: providersLoop_converted [OF s(3)])
  qed
  have "(\<forall>p \<in> set ?provs. Addrs p \<noteq> []) \<longrightarrow> providersLoop D [] ?provs \<noteq> Panic"
    unfolding iff by auto
  with fp iff show ?thesis by simp
qed

text \<open>
  A provider without addresses after a good one; and two providers with addresses.
\<close>

theorem FindProviders_panics_on_empty_Addrs_witness:
  "hashedCID (stubDht [provGood, provNoAddr]) ''key'' = Inr ''key'' \<and>
   FindProviders (stubDht [provGood, provNoAddr]) Live ''key'' 10 = Panic \<and>
   map Addrs (findProvidersAsync (stubDht [provGood, provBad]) ''key'' 10) =
     [[''/onion/abcdefghijklmnop:4001''], [''/ip4/10.0.0.1/tcp/80'']] \<and>
   FindProviders (stubDht [provGood, provBad]) Live ''key'' 10 \<noteq> Panic"
proof -
  have h1: "hashedCID (stubDht [provGood, provNoAddr]) ''key'' = Inr ''key''"
    by (simp add: stubDht_def)
  have s: "findProvidersAsync (stubDht [provGood, provNoAddr]) ''key'' 10 =
      [provGood] @ provNoAddr # []"
    by (simp add: stubDht_def)
  have e: "Addrs provNoAddr = []"
    by (simp add: provNoAddr_def)
  have c: "\<forall>q \<in> set [provGood]. converted (stubDht [provGood, provNoAddr]) q \<noteq> None"
    by (simp add: converted_def makePeerInfo_def stubDht_def provGood_def)
  have h2: "hashedCID (stubDht [provGood, provBad]) ''key'' = Inr ''key''"
    by (simp add: stubDht_def)
  have a: "\<forall>p \<in> set (findProvidersAsync (stubDht [provGood, provBad]) ''key'' 10). Addrs p \<noteq> []"
    by (simp add: stubDht_def provGood_def provBad_def)
  from FindProviders_panics_on_empty_Addrs [OF h1, of Live 10] s e c
  have "FindProviders (stubDht [provGood, provNoAddr]) Live ''key'' 10 = Panic"
    by blast
  moreover from FindProviders_panics_on_empty_Addrs [OF h2, of Live 10] a
  have "FindProviders (stubDht [provGood, provBad]) Live ''key'' 10 \<noteq> Panic"
    by blast
  moreover have "map Addrs (findProvidersAsync (stubDht [provGood, provBad]) ''key'' 10) =
      [[''/onion/abcdefghijklmnop:4001''], [''/ip4/10.0.0.1/tcp/80'']]"
    by (simp add: stubDht_def provGood_def provBad_def)
  ultimately show ?thesis using h1 by blast
qed

text \<open>
  Claim C10. If the conversion of a provider fails, every provider before it having been
  converted, \<open>FindProviders\<close> returns a nil slice and the wrapped error. If all are
  converted it returns them in order together with \<open>ctx.Err()\<close>, which is not nil when
  the context has expired.
\<close>

theorem FindProviders_all_or_nothing:
  assumes "hashedCID D ident = Inr cid"
  shows "(findProvidersAsync D cid maxCount = pre @ p # post \<and>
            (\<forall>q \<in> set pre. converted D q \<noteq> None) \<and>
            Addrs p = a # as \<and> makePeerInfo D (peerID p) a = Inl err \<longrightarrow>
          FindProviders D ctx ident maxCount =
            Return (None, Some (''Failed parsing '' @ [CHR 0x27] @ showProvider D p @ [CHR 0x27] @
                                '': '' @ err))) \<and>
         ((\<forall>q \<in> set (findProvidersAsync D cid maxCount). converted D q \<noteq> None) \<longrightarrow>
          FindProviders D ctx ident maxCount =
            Return (Some (map (\<lambda>q. the (converted D q)) (findProvidersAsync D cid maxCount)),
                    ctxErrOf ctx) \<and>
          (\<forall>c. ctx = Expired c \<longrightarrow> ctxErrOf ctx = Some (ctxErrString c)))"
proof -
  let ?provs = "findProvidersAsync D cid maxCount"
  {
    assume s: "?provs = pre @ p # post" "\<forall>q \<in> set pre. converted D q \<noteq> None"
      "Addrs p = a # as" "makePeerInfo D (peerID p) a = Inl err"
    have "providersLoop D [] ?provs =
        Return (Inl (''Failed parsing '' @ [CHR 0x27] @ showProvider D p @ [CHR 0x27] @
                                '': '' @ err))"
      unfolding s(1) using s(3,4) by (simp add: providersLoop_converted [OF s(2)])
    then have "FindProviders D ctx ident maxCount =
            Return (None, Some (''Failed parsing '' @ [CHR 0x27] @ showProvider D p @ [CHR 0x27] @
                                '': '' @ err))"
      using assms by (simp add: FindProviders_def)
  }
  moreover {
    assume a: "\<forall>q \<in> set ?provs. converted D q \<noteq> None"
    have "providersLoop D [] (?provs @ []) =
        providersLoop D ([] @ map (\<lambda>q. the (converted D q)) ?provs) []"
      using a by (rule providersLoop_converted)
    then have "FindProviders D ctx ident maxCount =
        Return (Some (map (\<lambda>q. the (converted D q)) ?provs), ctxErrOf ctx)"
      using assms by (simp add: FindProviders_def)
  }
  ultimately show ?thesis by auto
qed

text \<open>
  A provider that cannot be converted after a good one; and two good providers read under
  an expired context.
\<close>

theorem FindProviders_all_or_nothing_witness:
  "FindProviders (stubDht [provGood, provBad, provGood]) Live ''key'' 10 =
     Return (None, Some ''Failed parsing 'QmBad': not an onion address'') \<and>
   FindProviders (stubDht [provGood, provGood]) (Expired DeadlineExceeded) ''key'' 10 =
     Return (Some [peer0, peer0], Some ''context deadline exceeded'')"
proof -
  have h1: "hashedCID (stubDht [provGood, provBad, provGood]) ''key'' = Inr ''key''"
    by (simp add: stubDht_def)
  have s: "findProvidersAsync (stubDht [provGood, provBad, provGood]) ''key'' 10 =
      [provGood] @ provBad # [provGood]"
    by (simp add: stubDht_def)
  have c: "\<forall>q \<in> set [provGood]. converted (stubDht [provGood, provBad, provGood]) q \<noteq> None"
    by (simp add: converted_def makePeerInfo_def stubDht_def provGood_def)
  have b: "Addrs provBad = ''/ip4/10.0.0.1/tcp/80'' # []"
    by (simp add: provBad_def)
  have m: "makePeerInfo (stubDht [provGood, provBad, provGood]) (peerID provBad)
      ''/ip4/10.0.0.1/tcp/80'' = Inl ''not an onion address''"
    by (simp add: makePeerInfo_def stubDht_def)
  have sp: "showProvider (stubDht [provGood, provBad, provGood]) provBad = ''QmBad''"
    by (simp add: stubDht_def provBad_def)
  have h2: "hashedCID (stubDht [provGood, provGood]) ''key'' = Inr ''key''"
    by (simp add: stubDht_def)
  have a: "\<forall>q \<in> set (findProvidersAsync (stubDht [provGood, provGood]) ''key'' 10).
      converted (stubDht [provGood, provGood]) q \<noteq> None"
    by (simp add: converted_def makePeerInfo_def stubDht_def provGood_def)
  have v: "map (\<lambda>q. the (converted (stubDht [provGood, provGood]) q))
      (findProvidersAsync (stubDht [provGood, provGood]) ''key'' 10) = [peer0, peer0]"
    by (simp add: converted_def makePeerInfo_def stubDht_def provGood_def peer0_def)
  from FindProviders_all_or_nothing [OF h1, of 10 "[provGood]" provBad "[provGood]"
      "''/ip4/10.0.0.1/tcp/80''" "[]" "''not an onion address''" Live] s c b m
  have "FindProviders (stubDht [provGood, provBad, provGood]) Live ''key'' 10 =
      Return (None, Some (''Failed parsing '' @ [CHR 0x27] @
        showProvider (stubDht [provGood, provBad, provGood]) provBad @ [CHR 0x27] @
        '': '' @ ''not an onion address''))"
    by blast
  then have r1: "FindProviders (stubDht [provGood, provBad, provGood]) Live ''key'' 10 =
     Return (None, Some ''Failed parsing 'QmBad': not an onion address'')"
    by (simp add: sp)
  from FindProviders_all_or_nothing [OF h2, of 10 "[]" provBad "[]" "[]" "[]" "[]"
      "Expired DeadlineExceeded"] a
  have "FindProviders (stubDht [provGood, provGood]) (Expired DeadlineExceeded) ''key'' 10 =
      Return (Some (map (\<lambda>q. the (converted (stubDht [provGood, provGood]) q))
        (findProvidersAsync (stubDht [provGood, provGood]) ''key'' 10)),
        ctxErrOf (Expired DeadlineExceeded))"
    by blast
  then have r2: "FindProviders (stubDht [provGood, provGood]) (Expired DeadlineExceeded) ''key'' 10 =
     Return (Some [peer0, peer0], Some ''context deadline exceeded'')"
    by (simp add: v)
  from r1 r2 show ?thesis by simp
qed

section \<open>Properties of the address codec\<close>

lemma of_char_digit: "d < 10 \<Longrightarrow> (of_char (digit d) :: nat) = 48 + d"
  by (simp add: digit_def)

lemma isDigit_digit: "d < 10 \<Longrightarrow> isDigit (digit d)"
  by (simp add: isDigit_def of_char_digit)

lemma parseDigits_append:
  "parseDigits acc (xs @ ys) =
     (case parseDigits acc xs of None \<Rightarrow> None | Some v \<Rightarrow> parseDigits v ys)"
  by (induction xs arbitrary: acc) simp_all

lemma parseDigits_showNat: "parseDigits 0 (showNat n) = Some n"
proof (induction n rule: showNat.induct)
  case (1 n)
  show ?case
  proof (cases "n < 10")
    case True
    then show ?thesis
      by (simp add: showNat.simps [of n] isDigit_digit of_char_digit)
  next
    case False
    then have ih: "parseDigits 0 (showNat (n div 10)) = Some (n div 10)"
      using 1 by simp
    have d: "n mod 10 < 10" by simp
    show ?thesis
      using False ih
      by (simp add: showNat.simps [of n] parseDigits_append isDigit_digit [OF d]
          of_char_digit [OF d])
  qed
qed

lemma showNat_nonempty: "showNat n \<noteq> []"
  by (simp add: showNat.simps [of n])

lemma parseNat_showNat: "parseNat (showNat n) = Some n"
  by (simp add: parseNat_def showNat_nonempty parseDigits_showNat)

lemma validIdentity_no_dot: "validIdentity s \<Longrightarrow> c \<in> set s \<Longrightarrow> c \<noteq> CHR ''.''"
  by (auto simp: validIdentity_def list_all_iff isLower_def isDigit_def)

lemma decode_encode:
  assumes i: "validIdentity ident" and p: "validPort port"
  shows "decode (encode ident port) = Inr (ident, port)"
proof -
  have nd: "\<And>c. c \<in> set ident \<Longrightarrow> c \<noteq> CHR ''.''"
    using i by (rule validIdentity_no_dot)
  have sp: "showInt port = showNat (nat port)"
    using p by (simp add: showInt_def validPort_def)
  have tw: "takeWhile (\<lambda>c. c \<noteq> CHR ''.'') (encode ident port) = ident"
    using nd by (simp add: encode_def takeWhile_append2)
  have dw: "dropWhile (\<lambda>c. c \<noteq> CHR ''.'') (encode ident port) = ''.onion:'' @ showNat (nat port)"
    using nd by (simp add: encode_def dropWhile_append2 sp)
  have "int (nat port) = port" using p by (simp add: validPort_def)
  then show ?thesis
    using i p by (simp add: decode_def tw dw parseNat_showNat)
qed

text \<open>
  Claim C8. Decoding the encoding of a valid pair gives the pair back; the address
  \<open>abcdefghijklmnop.onion:4001\<close> decodes to \<open>abcdefghijklmnop\<close> and 4001, which
  encode to the same text.
\<close>

theorem decode_encode_roundtrip:
  "(validIdentity ident \<and> validPort port \<longrightarrow> decode (encode ident port) = Inr (ident, port)) \<and>
   decode ''abcdefghijklmnop.onion:4001'' = Inr (''abcdefghijklmnop'', 4001) \<and>
   encode ''abcdefghijklmnop'' 4001 = ''abcdefghijklmnop.onion:4001''"
proof -
  have v: "validIdentity ''abcdefghijklmnop''"
    by (simp add: validIdentity_def isLower_def isDigit_def)
  have q: "validPort 4001"
    by (simp add: validPort_def)
  have e: "encode ''abcdefghijklmnop'' 4001 = ''abcdefghijklmnop.onion:4001''"
    by (simp add: encode_def showInt_def showNat.simps [of 4001] showNat.simps [of 400]
        showNat.simps [of 40] showNat.simps [of 4] digit_def char_of_def bit_Suc_0_iff)
  have "decode (encode ''abcdefghijklmnop'' 4001) = Inr (''abcdefghijklmnop'', 4001)"
    using v q by (rule decode_encode)
  with e show ?thesis by (simp add: decode_encode)
qed

text \<open>
  Another valid pair.
\<close>

theorem decode_encode_roundtrip_witness:
  "validIdentity ''facebookcorewwwi'' \<and> validPort 443 \<and>
   decode (encode ''facebookcorewwwi'' 443) = Inr (''facebookcorewwwi'', 443)"
proof -
  have v: "validIdentity ''facebookcorewwwi''"
    by (simp add: validIdentity_def isLower_def isDigit_def)
  have q: "validPort 443"
    by (simp add: validPort_def)
  from v q decode_encode_roundtrip [of "''facebookcorewwwi''" 443]
  show ?thesis by blast
qed

end
